theory Spec2Isabelle
  imports Complex_Main
begin

section \<open>JavaScript values\<close>

text \<open>
  A JavaScript number is a double; the units only compare numbers and test them for
  \<open>NaN\<close>, so a number is one of the three special values or a finite rational.
\<close>

datatype jsnum = NaN | NegInf | Fin rat | PosInf

text \<open>
  Values are trees. Every function, array and plain object carries the reference that
  makes up its identity (what \<open>===\<close> compares); arrays hold their items and plain
  objects their own enumerable properties in order. Class instances, mutation of a
  value after it was handed over and shared substructure are not represented.
\<close>

datatype jsval =
    Undefined
  | Null
  | Bool bool
  | Num jsnum
  | Str string
  | Func nat
  | Arr nat "jsval list"
  | Dict nat "(string \<times> jsval) list"

fun strictEq :: "jsval \<Rightarrow> jsval \<Rightarrow> bool" where
  "strictEq Undefined Undefined = True"
| "strictEq Null Null = True"
| "strictEq (Bool a) (Bool b) = (a = b)"
| "strictEq (Num a) (Num b) = (a \<noteq> NaN \<and> b \<noteq> NaN \<and> a = b)"
| "strictEq (Str a) (Str b) = (a = b)"
| "strictEq (Func r) (Func s) = (r = s)"
| "strictEq (Arr r _) (Arr s _) = (r = s)"
| "strictEq (Dict r _) (Dict s _) = (r = s)"
| "strictEq _ _ = False"

text \<open>\<open>Math.max(1, n)\<close> and \<open>a > b\<close> on numbers.\<close>

fun mathMax1 :: "jsnum \<Rightarrow> jsnum" where
  "mathMax1 NaN = NaN"
| "mathMax1 NegInf = Fin 1"
| "mathMax1 (Fin q) = Fin (max 1 q)"
| "mathMax1 PosInf = PosInf"

fun numGreater :: "jsnum \<Rightarrow> jsnum \<Rightarrow> bool" where
  "numGreater NaN _ = False"
| "numGreater _ NaN = False"
| "numGreater NegInf _ = False"
| "numGreater (Fin a) NegInf = True"
| "numGreater (Fin a) (Fin b) = (a > b)"
| "numGreater (Fin a) PosInf = False"
| "numGreater PosInf PosInf = False"
| "numGreater PosInf _ = True"

subsection \<open>utils/funcs\<close>

fun isNumber :: "jsval \<Rightarrow> bool" where
  "isNumber (Num n) = (n \<noteq> NaN)"
| "isNumber _ = False"

fun isDict :: "jsval \<Rightarrow> bool" where
  "isDict (Dict _ _) = True"
| "isDict _ = False"

fun isArray :: "jsval \<Rightarrow> bool" where
  "isArray (Arr _ _) = True"
| "isArray _ = False"

fun isValidKey :: "jsval \<Rightarrow> bool" where
  "isValidKey (Str _) = True"
| "isValidKey (Num _) = True"
| "isValidKey _ = False"

text \<open>\<open>isValidId\<close>: a string with something left after \<open>trim()\<close>.\<close>

definition isWhiteSpace :: "char \<Rightarrow> bool" where
  "isWhiteSpace c = (c \<in> {CHR '' '', CHR 0x09, CHR 0x0A, CHR 0x0B, CHR 0x0C, CHR 0x0D})"

definition isValidId :: "string \<Rightarrow> bool" where
  "isValidId s = (\<not> list_all isWhiteSpace s)"

text \<open>
  \<open>isSerializable\<close> answers with the first offending value; the units only use whether
  there is one.
\<close>

fun isSerializable :: "jsval \<Rightarrow> bool" where
  "isSerializable (Func _) = False"
| "isSerializable (Arr _ xs) = list_all isSerializable xs"
| "isSerializable (Dict _ kvs) = list_all (\<lambda>kv. isSerializable (snd kv)) kvs"
| "isSerializable _ = True"

text \<open>
  \<open>deepCopy\<close> builds a new array or object for every array and plain object of its
  argument. The first argument is the next unused reference, returned advanced.
\<close>

fun deepCopy :: "nat \<Rightarrow> jsval \<Rightarrow> jsval \<times> nat"
  and deepCopyItems :: "nat \<Rightarrow> jsval list \<Rightarrow> jsval list \<times> nat"
  and deepCopyEntries :: "nat \<Rightarrow> (string \<times> jsval) list \<Rightarrow> (string \<times> jsval) list \<times> nat"
where
  "deepCopy h (Arr r xs) = (case deepCopyItems h xs of (ys, h') \<Rightarrow> (Arr h' ys, Suc h'))"
| "deepCopy h (Dict r kvs) = (case deepCopyEntries h kvs of (es, h') \<Rightarrow> (Dict h' es, Suc h'))"
| "deepCopy h Undefined = (Undefined, h)"
| "deepCopy h Null = (Null, h)"
| "deepCopy h (Bool b) = (Bool b, h)"
| "deepCopy h (Num n) = (Num n, h)"
| "deepCopy h (Str s) = (Str s, h)"
| "deepCopy h (Func r) = (Func r, h)"
| "deepCopyItems h [] = ([], h)"
| "deepCopyItems h (x # xs) =
     (case deepCopy h x of (y, h1) \<Rightarrow>
        (case deepCopyItems h1 xs of (ys, h2) \<Rightarrow> (y # ys, h2)))"
| "deepCopyEntries h [] = ([], h)"
| "deepCopyEntries h (kv # kvs) =
     (case deepCopy h (snd kv) of (y, h1) \<Rightarrow>
        (case deepCopyEntries h1 kvs of (es, h2) \<Rightarrow> ((fst kv, y) # es, h2)))"


section \<open>Units\<close>

text \<open>
  The six unit classes differ in \<open>isValidValue\<close>, \<open>defaultValue\<close> and \<open>isEmpty\<close>.
  \<open>defaultValue\<close> of a ListUnit or a DictUnit builds a new array or object at every
  call: its argument is the reference that object gets.
\<close>

datatype flavor = GenericUnit | BoolUnit | NumUnit | StringUnit | ListUnit | DictUnit

fun isValidValue :: "flavor \<Rightarrow> jsval \<Rightarrow> bool" where
  "isValidValue GenericUnit v = True"
| "isValidValue BoolUnit v = (case v of Bool _ \<Rightarrow> True | _ \<Rightarrow> False)"
| "isValidValue NumUnit v = isNumber v"
| "isValidValue StringUnit v = (case v of Str _ \<Rightarrow> True | _ \<Rightarrow> False)"
| "isValidValue ListUnit v = isArray v"
| "isValidValue DictUnit v = isDict v"

fun defaultValue :: "flavor \<Rightarrow> nat \<Rightarrow> jsval" where
  "defaultValue GenericUnit h = Undefined"
| "defaultValue BoolUnit h = Bool False"
| "defaultValue NumUnit h = Num (Fin 0)"
| "defaultValue StringUnit h = Str []"
| "defaultValue ListUnit h = Arr h []"
| "defaultValue DictUnit h = Dict h []"

text \<open>
  The configuration after the global defaults were merged in. A flag is \<open>True\<close> when
  the option is exactly \<open>true\<close>, the only thing the code tests; \<open>cfg_id\<close> is \<open>None\<close>
  when no id is given; \<open>customDispatchCheck\<close> is \<open>Some\<close> when the option is a function,
  and gives the truthiness of its result.
  The debounce options are left out: the debounce wrapper runs on timers, and what is
  modelled is a dispatch that reaches \<open>dispatchActual\<close>.
\<close>

record config =
  cfg_id :: "string option"
  cfg_cacheSize :: jsval
  immutable :: bool
  persistent :: bool
  distinctDispatchCheck :: bool
  customDispatchCheck :: "(jsval \<Rightarrow> jsval \<Rightarrow> bool) option"
  cfg_initialValue :: jsval

record dispatchOptions =
  bypassDebounce :: bool
  force :: bool
  cacheReplace :: bool

record clearCacheOptions =
  leaveFirst :: bool
  leaveLast :: bool

datatype dispatchFailReason = FROZEN_UNIT | INVALID_VALUE | CUSTOM_DISPATCH_CHECK | DISTINCT_CHECK

datatype unitEvent =
    EventUnitDispatch jsval dispatchOptions
  | EventUnitDispatchFail jsval dispatchFailReason dispatchOptions
  | EventUnitJump int nat
  | EventUnitClearCache clearCacheOptions
  | EventUnitClearValue
  | EventUnitClear clearCacheOptions
  | EventUnitResetValue
  | EventUnitReset clearCacheOptions
  | EventUnitFreeze
  | EventUnitUnfreeze
  | EventUnitUnmute

text \<open>
  The fields of a unit. \<open>eventsSubject\<close> is \<open>None\<close> until \<open>events$\<close> is first read;
  afterwards it holds the events pushed so far, oldest first.
\<close>

record unitBase =
  flavor :: flavor
  config :: config
  cacheSize :: jsnum
  isFrozen :: bool
  isMuted :: bool
  emitOnUnmute :: bool
  cachedValues :: "jsval list"
  cacheIndex :: nat
  u_initialValue :: jsval
  u_value :: jsval
  emitCount :: nat
  emittedValue :: jsval
  eventsSubject :: "unitEvent list option"

text \<open>
  What the units share: the next unused reference, the storage of the persistent units
  and the environment's \<open>checkSerializability\<close> flag. The storage holds JSON text; the
  model keeps the document each text denotes. A text that is not JSON reads as \<open>null\<close>
  exactly like a missing entry, so only entries with JSON text are kept.
\<close>

datatype json = JNull | JBool bool | JNum rat | JStr string | JArr "json list"
  | JObj "(string \<times> json) list"

record world =
  heap :: nat
  storage :: "string \<rightharpoonup> json"
  checkSerializability :: bool

datatype error = InvalidId | IdRequiredForPersistence | NonSerializable
  | NotANonPrimitiveUnit | EmptyPath | InvalidKey jsval

subsection \<open>Reading the value\<close>

definition applyFallbackValue :: "world \<Rightarrow> unitBase \<Rightarrow> jsval \<Rightarrow> jsval" where
  "applyFallbackValue w u v =
     (if strictEq v Undefined then defaultValue (flavor u) (heap w) else v)"

definition rawValue :: "world \<Rightarrow> unitBase \<Rightarrow> jsval" where
  "rawValue w u = applyFallbackValue w u (u_value u)"

definition initialValueRaw :: "world \<Rightarrow> unitBase \<Rightarrow> jsval" where
  "initialValueRaw w u = applyFallbackValue w u (u_initialValue u)"

definition deepCopyMaybe :: "world \<Rightarrow> unitBase \<Rightarrow> jsval \<Rightarrow> jsval \<times> world" where
  "deepCopyMaybe w u v =
     (if immutable (config u)
      then (case deepCopy (heap w) v of (c, h) \<Rightarrow> (c, w\<lparr>heap := h\<rparr>))
      else (v, w))"

text \<open>
  \<open>value()\<close>: BoolUnit, NumUnit and StringUnit return \<open>rawValue()\<close>, the other
  classes inherit the copying one.
\<close>

definition unitValue :: "world \<Rightarrow> unitBase \<Rightarrow> jsval \<times> world" where
  "unitValue w u =
     (if flavor u \<in> {BoolUnit, NumUnit, StringUnit} then (rawValue w u, w)
      else deepCopyMaybe w u (rawValue w u))"

fun objectKeysLength :: "jsval \<Rightarrow> nat" where
  "objectKeysLength (Arr _ xs) = length xs"
| "objectKeysLength (Dict _ kvs) = length kvs"
| "objectKeysLength (Str s) = length s"
| "objectKeysLength _ = 0"

text \<open>
  \<open>isEmpty\<close>: ListUnit and DictUnit override it by \<open>length === 0\<close>; the others compare
  with the default value.
\<close>

definition isEmpty :: "world \<Rightarrow> unitBase \<Rightarrow> bool" where
  "isEmpty w u =
     (if flavor u \<in> {ListUnit, DictUnit} then objectKeysLength (rawValue w u) = 0
      else strictEq (rawValue w u) (defaultValue (flavor u) (heap w)))"


subsection \<open>Arrays\<close>

text \<open>
  \<open>xs[i]\<close>, \<open>xs[i] = v\<close> (writing past the end extends the array, the holes read as
  \<open>undefined\<close>) and \<open>xs.splice(start, deleteCount, ...items)\<close> for a start that is not
  negative.
\<close>

definition arrayGet :: "jsval list \<Rightarrow> nat \<Rightarrow> jsval" where
  "arrayGet xs i = (if i < length xs then xs ! i else Undefined)"

definition arraySet :: "jsval list \<Rightarrow> nat \<Rightarrow> jsval \<Rightarrow> jsval list" where
  "arraySet xs i v =
     (if i < length xs then xs[i := v]
      else xs @ replicate (i - length xs) Undefined @ [v])"

definition splice :: "nat \<Rightarrow> int \<Rightarrow> 'a list \<Rightarrow> 'a list \<Rightarrow> 'a list" where
  "splice start deleteCount items xs =
     (let s = min start (length xs);
          d = nat (min (max deleteCount 0) (int (length xs - s)))
      in take s xs @ items @ drop (s + d) xs)"

subsection \<open>Persistence\<close>

definition KeyPrefix :: string where
  "KeyPrefix = ''_AJS_UNIT_''"

text \<open>
  \<open>JSON.stringify\<close> of a value: \<open>None\<close> where it yields \<open>undefined\<close>, so that the
  property is left out of an object and replaced by \<open>null\<close> in an array.
\<close>

fun toJson :: "jsval \<Rightarrow> json option" where
  "toJson Undefined = None"
| "toJson (Func _) = None"
| "toJson Null = Some JNull"
| "toJson (Bool b) = Some (JBool b)"
| "toJson (Num (Fin q)) = Some (JNum q)"
| "toJson (Num _) = Some JNull"
| "toJson (Str s) = Some (JStr s)"
| "toJson (Arr _ xs) =
     Some (JArr (map (\<lambda>x. case toJson x of None \<Rightarrow> JNull | Some j \<Rightarrow> j) xs))"
| "toJson (Dict _ kvs) =
     Some (JObj (concat (map (\<lambda>kv. case toJson (snd kv) of None \<Rightarrow> []
                                     | Some j \<Rightarrow> [(fst kv, j)]) kvs)))"

text \<open>\<open>JSON.parse\<close> of a document, with the next unused reference.\<close>

fun fromJson :: "nat \<Rightarrow> json \<Rightarrow> jsval \<times> nat"
  and fromJsonItems :: "nat \<Rightarrow> json list \<Rightarrow> jsval list \<times> nat"
  and fromJsonEntries :: "nat \<Rightarrow> (string \<times> json) list \<Rightarrow> (string \<times> jsval) list \<times> nat"
where
  "fromJson h JNull = (Null, h)"
| "fromJson h (JBool b) = (Bool b, h)"
| "fromJson h (JNum q) = (Num (Fin q), h)"
| "fromJson h (JStr s) = (Str s, h)"
| "fromJson h (JArr js) = (case fromJsonItems h js of (xs, h') \<Rightarrow> (Arr h' xs, Suc h'))"
| "fromJson h (JObj kjs) = (case fromJsonEntries h kjs of (es, h') \<Rightarrow> (Dict h' es, Suc h'))"
| "fromJsonItems h [] = ([], h)"
| "fromJsonItems h (j # js) =
     (case fromJson h j of (x, h1) \<Rightarrow>
        (case fromJsonItems h1 js of (xs, h2) \<Rightarrow> (x # xs, h2)))"
| "fromJsonEntries h [] = ([], h)"
| "fromJsonEntries h (kj # kjs) =
     (case fromJson h (snd kj) of (x, h1) \<Rightarrow>
        (case fromJsonEntries h1 kjs of (es, h2) \<Rightarrow> ((fst kj, x) # es, h2)))"

text \<open>
  \<open>save\<close> wraps the value as \<open>{value}\<close>; the fallback of its \<open>catch\<close> is for values
  \<open>JSON.stringify\<close> throws on (cycles, BigInt), which the value trees do not contain.
\<close>

definition save :: "string \<Rightarrow> jsval \<Rightarrow> world \<Rightarrow> world" where
  "save key v w =
     w\<lparr>storage := (storage w)(KeyPrefix @ key \<mapsto>
          JObj (case toJson v of None \<Rightarrow> [] | Some j \<Rightarrow> [(''value'', j)]))\<rparr>"

definition retrieve :: "string \<Rightarrow> world \<Rightarrow> jsval \<times> world" where
  "retrieve key w =
     (case storage w (KeyPrefix @ key) of
        None \<Rightarrow> (Null, w)
      | Some j \<Rightarrow> (case fromJson (heap w) j of (v, h) \<Rightarrow> (v, w\<lparr>heap := h\<rparr>)))"

definition remove :: "string \<Rightarrow> world \<Rightarrow> world" where
  "remove key w = w\<lparr>storage := (storage w)(KeyPrefix @ key := None)\<rparr>"

fun truthy :: "jsval \<Rightarrow> bool" where
  "truthy Undefined = False"
| "truthy Null = False"
| "truthy (Bool b) = b"
| "truthy (Num n) = (n \<noteq> NaN \<and> n \<noteq> Fin 0)"
| "truthy (Str s) = (s \<noteq> [])"
| "truthy _ = True"

text \<open>\<open>savedState.value\<close> on a truthy \<open>savedState\<close>.\<close>

fun valueProperty :: "jsval \<Rightarrow> jsval" where
  "valueProperty (Dict _ kvs) = (case map_of kvs ''value'' of Some v \<Rightarrow> v | None \<Rightarrow> Undefined)"
| "valueProperty _ = Undefined"


subsection \<open>Base and UnitBase\<close>

text \<open>
  \<open>emit()\<close> of \<open>Base\<close>, called without argument: the emitted value is \<open>value()\<close>.
  The subscribers of the two subjects are outside a unit; what stays in it are the count
  and the emitted value.
\<close>

definition emit :: "world \<Rightarrow> unitBase \<Rightarrow> unitBase \<times> world" where
  "emit w u =
     (case unitValue w u of (v, w') \<Rightarrow>
        (u\<lparr>emitCount := emitCount u + 1, emittedValue := v\<rparr>, w'))"

text \<open>\<open>if (this.eventsSubject && !this.isMuted) this.eventsSubject.next(e)\<close>\<close>

definition pushEvent :: "unitBase \<Rightarrow> unitEvent \<Rightarrow> unitBase" where
  "pushEvent u e =
     (case eventsSubject u of
        None \<Rightarrow> u
      | Some es \<Rightarrow> if isMuted u then u else u\<lparr>eventsSubject := Some (es @ [e])\<rparr>)"

definition cachedValuesCount :: "unitBase \<Rightarrow> nat" where
  "cachedValuesCount u = length (cachedValues u)"

definition distinctCheck :: "world \<Rightarrow> unitBase \<Rightarrow> jsval \<Rightarrow> bool" where
  "distinctCheck w u v =
     (\<not> distinctDispatchCheck (config u) \<or> \<not> strictEq v (rawValue w u))"

text \<open>\<open>wouldDispatch\<close> of \<open>UnitBase\<close>, which GenericUnit inherits as it is.\<close>

definition wouldDispatchBase :: "world \<Rightarrow> unitBase \<Rightarrow> jsval \<Rightarrow> bool \<Rightarrow> bool" where
  "wouldDispatchBase w u v frc =
     (if isFrozen u then False
      else if frc then True
      else if (case customDispatchCheck (config u) of
                 None \<Rightarrow> False
               | Some chk \<Rightarrow> \<not> chk (rawValue w u) v) then False
      else distinctCheck w u v)"

text \<open>The override of the five typed classes puts \<open>isValidValue\<close> in front.\<close>

definition wouldDispatch :: "world \<Rightarrow> unitBase \<Rightarrow> jsval \<Rightarrow> bool \<Rightarrow> bool" where
  "wouldDispatch w u v frc =
     (if flavor u = GenericUnit then wouldDispatchBase w u v frc
      else isValidValue (flavor u) v \<and> wouldDispatchBase w u v frc)"

text \<open>
  \<open>updateCache\<close>. The cache size is at least 1, so the push branch leaves an entry and
  \<open>cachedValuesCount - 1\<close> is an index.
\<close>

definition updateCache :: "unitBase \<Rightarrow> jsval \<Rightarrow> bool \<Rightarrow> unitBase" where
  "updateCache u v cacheRepl =
     (if cacheRepl then u\<lparr>cachedValues := arraySet (cachedValues u) (cacheIndex u) v\<rparr>
      else if cachedValuesCount u = 0 \<or> int (cacheIndex u) = int (cachedValuesCount u) - 1
      then
        (let pushed = cachedValues u @ [v];
             kept = (if numGreater (Fin (of_nat (length pushed))) (cacheSize u)
                     then tl pushed else pushed)
         in u\<lparr>cachedValues := kept, cacheIndex := length kept - 1\<rparr>)
      else
        u\<lparr>cachedValues :=
             splice (cacheIndex u + 1)
               (int (cachedValuesCount u) - 1 - int (cacheIndex u)) [v] (cachedValues u),
          cacheIndex := cacheIndex u + 1\<rparr>)"

definition updateValueInPersistentStorage :: "world \<Rightarrow> unitBase \<Rightarrow> world" where
  "updateValueInPersistentStorage w u =
     (if persistent (config u)
      then save (case cfg_id (config u) of Some i \<Rightarrow> i | None \<Rightarrow> ''undefined'')
             (rawValue w u) w
      else w)"

text \<open>
  \<open>updateValueAndCache(value, options, skipCache)\<close>; of the options only \<open>cacheReplace\<close>
  is read. \<open>deepFreeze\<close> under \<open>checkImmutability\<close> changes no value and is left out.
\<close>

definition updateValueAndCache ::
  "world \<Rightarrow> unitBase \<Rightarrow> jsval \<Rightarrow> bool \<Rightarrow> bool \<Rightarrow> unitBase \<times> world" where
  "updateValueAndCache w u v cacheRepl skipCache =
     (let u1 = (if skipCache then u else updateCache u v cacheRepl);
          u2 = u1\<lparr>u_value := v\<rparr>
      in case (if isMuted u2 then (u2\<lparr>emitOnUnmute := True\<rparr>, w)
               else emit w (u2\<lparr>emitOnUnmute := False\<rparr>)) of
           (u3, w1) \<Rightarrow> (u3, updateValueInPersistentStorage w1 u3))"

definition checkSerializabilityMaybe :: "world \<Rightarrow> jsval \<Rightarrow> bool" where
  "checkSerializabilityMaybe w v = (checkSerializability w \<and> \<not> isSerializable v)"

text \<open>
  The argument of a dispatch is a value or a function that produces one from the
  current value.
\<close>

datatype valueOrProducer = Value jsval | Producer "jsval \<Rightarrow> jsval"

definition failReason :: "world \<Rightarrow> unitBase \<Rightarrow> jsval \<Rightarrow> dispatchFailReason" where
  "failReason w u v =
     (if isFrozen u then FROZEN_UNIT
      else if isValidValue (flavor u) v
      then (if distinctCheck w u v then CUSTOM_DISPATCH_CHECK else DISTINCT_CHECK)
      else INVALID_VALUE)"

text \<open>
  \<open>dispatchActual\<close>, with its first statement as \<open>resolveValue\<close>: \<open>Inl\<close> when \<open>checkSerializability\<close> throws, otherwise the returned
  boolean with the unit and the world after the call. \<open>dispatch\<close> of a unit without
  debounce, or with \<open>bypassDebounce\<close>, is this function.
\<close>

definition resolveValue :: "world \<Rightarrow> unitBase \<Rightarrow> valueOrProducer \<Rightarrow> jsval \<times> world" where
  "resolveValue w u vp =
     (case vp of
        Value v \<Rightarrow> (v, w)
      | Producer f \<Rightarrow> (case unitValue w u of (cur, w') \<Rightarrow> (f cur, w')))"

definition dispatchActual ::
  "world \<Rightarrow> unitBase \<Rightarrow> valueOrProducer \<Rightarrow> dispatchOptions
     \<Rightarrow> error + (bool \<times> unitBase \<times> world)" where
  "dispatchActual w u vp opts =
     (case resolveValue w u vp of
        (v, w1) \<Rightarrow>
          if checkSerializabilityMaybe w1 v then Inl NonSerializable
          else if wouldDispatch w1 u v (force opts)
          then (case deepCopyMaybe w1 u v of (c, w2) \<Rightarrow>
                  (case updateValueAndCache w2 u c (cacheReplace opts) False of (u', w3) \<Rightarrow>
                     Inr (True, pushEvent u' (EventUnitDispatch v opts), w3)))
          else Inr (False, pushEvent u (EventUnitDispatchFail v (failReason w1 u v) opts), w1))"


subsection \<open>Cache navigation\<close>

text \<open>
  \<open>jump\<close> by a whole number of steps (every integer passes \<open>isNumber\<close>). GenericUnit's
  \<open>skipNilValues\<close> variants of \<open>goBack\<close> and \<open>goForward\<close> are left out.
\<close>

definition jump :: "world \<Rightarrow> unitBase \<Rightarrow> int \<Rightarrow> bool \<times> unitBase \<times> world" where
  "jump w u steps =
     (if isFrozen u then (False, u, w)
      else
        (let newIndex = int (cacheIndex u) + steps
         in if newIndex < 0 \<or> newIndex = int (cacheIndex u)
               \<or> newIndex > int (cachedValuesCount u) - 1
            then (False, u, w)
            else
              (let u1 = u\<lparr>cacheIndex := nat newIndex\<rparr>
               in case updateValueAndCache w u1
                         (arrayGet (cachedValues u1) (cacheIndex u1)) False True of
                    (u2, w2) \<Rightarrow>
                      (True, pushEvent u2 (EventUnitJump steps (nat newIndex)), w2))))"

definition goBack :: "world \<Rightarrow> unitBase \<Rightarrow> bool \<times> unitBase \<times> world" where
  "goBack w u = jump w u (- 1)"

definition goForward :: "world \<Rightarrow> unitBase \<Rightarrow> bool \<times> unitBase \<times> world" where
  "goForward w u = jump w u 1"

definition jumpToStart :: "world \<Rightarrow> unitBase \<Rightarrow> bool \<times> unitBase \<times> world" where
  "jumpToStart w u = jump w u (- int (cacheIndex u))"

definition jumpToEnd :: "world \<Rightarrow> unitBase \<Rightarrow> bool \<times> unitBase \<times> world" where
  "jumpToEnd w u = jump w u (int (cachedValuesCount u) - 1 - int (cacheIndex u))"

subsection \<open>Clearing and resetting\<close>

definition clearCache :: "unitBase \<Rightarrow> clearCacheOptions \<Rightarrow> bool \<times> unitBase" where
  "clearCache u opts =
     (if isFrozen u \<or> cachedValuesCount u = 0
         \<or> (cachedValuesCount u = 1 \<and> (leaveFirst opts \<or> leaveLast opts))
         \<or> (cachedValuesCount u = 2 \<and> leaveFirst opts \<and> leaveLast opts)
      then (False, u)
      else
        (let start = (if leaveFirst opts then 1 else 0);
             deleteCount = int (cachedValuesCount u) - int start
                             - (if leaveLast opts then 1 else 0);
             u1 = u\<lparr>cachedValues := splice start deleteCount [] (cachedValues u)\<rparr>;
             u2 = u1\<lparr>cacheIndex := nat (max 0 (int (cachedValuesCount u1) - 1))\<rparr>
         in (True, pushEvent u2 (EventUnitClearCache opts))))"

text \<open>
  Where the value built by \<open>defaultValue()\<close> is kept in the unit, its reference is used
  up: the next unused reference moves on.
\<close>

definition clearValue :: "world \<Rightarrow> unitBase \<Rightarrow> bool \<times> unitBase \<times> world" where
  "clearValue w u =
     (if isFrozen u \<or> emitCount u = 0 \<or> isEmpty w u then (False, u, w)
      else
        (case updateValueAndCache (w\<lparr>heap := Suc (heap w)\<rparr>) u
                (defaultValue (flavor u) (heap w)) False False of
           (u1, w1) \<Rightarrow> (True, pushEvent u1 EventUnitClearValue, w1)))"

definition resetValue :: "world \<Rightarrow> unitBase \<Rightarrow> bool \<times> unitBase \<times> world" where
  "resetValue w u =
     (if isFrozen u \<or> strictEq (rawValue w u) (initialValueRaw w u) then (False, u, w)
      else
        (case updateValueAndCache (w\<lparr>heap := Suc (heap w)\<rparr>) u
                (initialValueRaw w u) False False of
           (u1, w1) \<Rightarrow> (True, pushEvent u1 EventUnitResetValue, w1)))"

definition freeze :: "unitBase \<Rightarrow> unitBase" where
  "freeze u = (if isFrozen u then u else pushEvent (u\<lparr>isFrozen := True\<rparr>) EventUnitFreeze)"

definition unfreeze :: "unitBase \<Rightarrow> unitBase" where
  "unfreeze u = (if \<not> isFrozen u then u else pushEvent (u\<lparr>isFrozen := False\<rparr>) EventUnitUnfreeze)"

definition mute :: "unitBase \<Rightarrow> unitBase" where
  "mute u = u\<lparr>isMuted := True\<rparr>"

definition unmute :: "world \<Rightarrow> unitBase \<Rightarrow> unitBase \<times> world" where
  "unmute w u =
     (if \<not> isMuted u then (u, w)
      else
        (let u1 = u\<lparr>isMuted := False\<rparr>
         in case (if emitOnUnmute u1
                  then (case emit w u1 of (u2, w2) \<Rightarrow> (u2\<lparr>emitOnUnmute := False\<rparr>, w2))
                  else (u1, w)) of
              (u3, w3) \<Rightarrow>
                (case eventsSubject u3 of
                   None \<Rightarrow> (u3, w3)
                 | Some es \<Rightarrow> (u3\<lparr>eventsSubject := Some (es @ [EventUnitUnmute])\<rparr>, w3))))"

text \<open>\<open>clear(options)\<close> and \<open>reset(options)\<close> return nothing.\<close>

definition clear :: "world \<Rightarrow> unitBase \<Rightarrow> clearCacheOptions \<Rightarrow> unitBase \<times> world" where
  "clear w u opts =
     (let u1 = unfreeze u
      in case clearValue w u1 of
           (_, u2, w2) \<Rightarrow>
             (case clearCache u2 opts of
                (_, u3) \<Rightarrow> (pushEvent u3 (EventUnitClear opts), w2)))"

definition reset :: "world \<Rightarrow> unitBase \<Rightarrow> clearCacheOptions \<Rightarrow> unitBase \<times> world" where
  "reset w u opts =
     (let u1 = unfreeze u
      in case resetValue w u1 of
           (_, u2, w2) \<Rightarrow>
             (case clearCache u2 opts of
                (_, u3) \<Rightarrow> (pushEvent u3 (EventUnitReset opts), w2)))"

text \<open>The default argument of \<open>reset\<close>.\<close>

definition resetDefaultOptions :: clearCacheOptions where
  "resetDefaultOptions = \<lparr>leaveFirst = False, leaveLast = True\<rparr>"

text \<open>Reading \<open>events$\<close> creates the events subject if there is none yet.\<close>

definition events :: "unitBase \<Rightarrow> unitBase" where
  "events u = (case eventsSubject u of None \<Rightarrow> u\<lparr>eventsSubject := Some []\<rparr> | Some _ \<Rightarrow> u)"

subsection \<open>Construction\<close>

definition shouldDispatchInitialValue :: "unitBase \<Rightarrow> jsval \<Rightarrow> bool" where
  "shouldDispatchInitialValue u iv = (\<not> strictEq iv Undefined \<and> isValidValue (flavor u) iv)"

definition dispatchInitialValue :: "world \<Rightarrow> unitBase \<Rightarrow> jsval \<Rightarrow> unitBase \<times> world" where
  "dispatchInitialValue w u iv =
     (if shouldDispatchInitialValue u iv
      then (let u1 = u\<lparr>u_initialValue := iv\<rparr>
            in updateValueAndCache w u1 (initialValueRaw w u1) False False)
      else updateValueAndCache (w\<lparr>heap := Suc (heap w)\<rparr>) u
             (defaultValue (flavor u) (heap w)) False False)"

definition restoreValueFromPersistentStorage ::
  "world \<Rightarrow> unitBase \<Rightarrow> jsval \<Rightarrow> error + (unitBase \<times> world)" where
  "restoreValueFromPersistentStorage w u iv =
     (case retrieve (case cfg_id (config u) of Some i \<Rightarrow> i | None \<Rightarrow> ''undefined'') w of
        (savedState, w1) \<Rightarrow>
          if truthy savedState then Inr (dispatchInitialValue w1 u (valueProperty savedState))
          else if checkSerializabilityMaybe w1 iv then Inl NonSerializable
          else (case deepCopyMaybe w1 u iv of (c, w2) \<Rightarrow> Inr (dispatchInitialValue w2 u c)))"

text \<open>
  The constructor of a unit class: the checks of \<open>Base\<close> on the id, the field
  initialisers, then the body of \<open>UnitBase\<close>. The \<open>checkUniqueId\<close> check of the
  environment, which needs the call stack, is taken to be off.
\<close>

definition newUnitBase :: "flavor \<Rightarrow> config \<Rightarrow> unitBase" where
  "newUnitBase fl cfg =
     \<lparr>flavor = fl, config = cfg,
      cacheSize = (case cfg_cacheSize cfg of
                     Num n \<Rightarrow> if n \<noteq> NaN then mathMax1 n else Fin 2
                   | _ \<Rightarrow> Fin 2),
      isFrozen = False, isMuted = False, emitOnUnmute = False,
      cachedValues = [], cacheIndex = 0,
      u_initialValue = Undefined, u_value = Undefined,
      emitCount = 0, emittedValue = Undefined, eventsSubject = None\<rparr>"

definition construct :: "world \<Rightarrow> flavor \<Rightarrow> config \<Rightarrow> error + (unitBase \<times> world)" where
  "construct w fl cfg =
     (if (case cfg_id cfg of Some i \<Rightarrow> \<not> isValidId i | None \<Rightarrow> False) then Inl InvalidId
      else if cfg_id cfg = None \<and> persistent cfg then Inl IdRequiredForPersistence
      else
        (let u = newUnitBase fl cfg
         in if persistent cfg
            then restoreValueFromPersistentStorage w u (cfg_initialValue cfg)
            else if checkSerializabilityMaybe w (cfg_initialValue cfg) then Inl NonSerializable
            else (case deepCopyMaybe w u (cfg_initialValue cfg) of
                    (c, w1) \<Rightarrow> Inr (dispatchInitialValue w1 u c))))"

section \<open>Selection\<close>

definition checkPath :: "jsval list \<Rightarrow> error option" where
  "checkPath path =
     (if length path = 0 then Some EmptyPath
      else (case find (\<lambda>key. \<not> isValidKey key) path of
              Some invalidKey \<Rightarrow> Some (InvalidKey invalidKey)
            | None \<Rightarrow> None))"

text \<open>
  The constructor of \<open>Selection\<close>: the classes below \<open>NonPrimitiveUnitBase\<close> are
  GenericUnit, ListUnit and DictUnit. A selection is its unit and its path.
\<close>

definition newSelection :: "unitBase \<Rightarrow> jsval list \<Rightarrow> error + (unitBase \<times> jsval list)" where
  "newSelection u path =
     (if flavor u \<notin> {GenericUnit, ListUnit, DictUnit} then Inl NotANonPrimitiveUnit
      else (case checkPath path of
              Some e \<Rightarrow> Inl e
            | None \<Rightarrow> Inr (u, path)))"

section \<open>The claims in the specification's words\<close>

text \<open>
  The admission rule as the specification words it: not frozen, accepted by the type
  validator, and either forced or passing the custom predicate (if there is one) and the
  distinct check (if it is enabled).
\<close>

definition admitted :: "world \<Rightarrow> unitBase \<Rightarrow> jsval \<Rightarrow> bool \<Rightarrow> bool" where
  "admitted w u v frc =
     (\<not> isFrozen u \<and> isValidValue (flavor u) v \<and>
      (frc \<or>
       ((case customDispatchCheck (config u) of
           None \<Rightarrow> True
         | Some chk \<Rightarrow> chk (rawValue w u) v) \<and>
        (\<not> distinctDispatchCheck (config u) \<or> \<not> strictEq v (rawValue w u)))))"

text \<open>
  The history invariant as the specification words it: the entry at the history index is
  the current value, and the history is no longer than the capacity.
\<close>

definition withinCapacity :: "unitBase \<Rightarrow> bool" where
  "withinCapacity u = (\<not> numGreater (Fin (of_nat (cachedValuesCount u))) (cacheSize u))"

definition historyInvariant :: "world \<Rightarrow> unitBase \<Rightarrow> bool" where
  "historyInvariant w u =
     (cacheIndex u < cachedValuesCount u \<and>
      cachedValues u ! cacheIndex u = rawValue w u \<and>
      withinCapacity u)"

text \<open>
  What holds of the cache of every unit, also after \<open>clearCache\<close>: the index points into
  the cache, or the cache is empty and the index 0; the cache is within the capacity,
  which is at least 1; and a typed unit caches no \<open>undefined\<close>.
\<close>

definition capacityAtLeast :: "nat \<Rightarrow> unitBase \<Rightarrow> bool" where
  "capacityAtLeast n u = (\<not> numGreater (Fin (of_nat n)) (cacheSize u))"

definition cacheSane :: "unitBase \<Rightarrow> bool" where
  "cacheSane u =
     ((cacheIndex u < cachedValuesCount u \<or> (cachedValuesCount u = 0 \<and> cacheIndex u = 0)) \<and>
      withinCapacity u \<and> capacityAtLeast 1 u \<and>
      (flavor u \<noteq> GenericUnit \<longrightarrow> Undefined \<notin> set (cachedValues u)))"


section \<open>Sample units\<close>

text \<open>
  A world with nothing stored and the checks of the environment off, the configuration
  with no option set, and units built from them by the constructor.
\<close>

definition world0 :: world where
  "world0 = \<lparr>heap = 0, storage = Map.empty, checkSerializability = False\<rparr>"

definition config0 :: config where
  "config0 = \<lparr>cfg_id = None, cfg_cacheSize = Undefined, immutable = False, persistent = False,
      distinctDispatchCheck = False, customDispatchCheck = None, cfg_initialValue = Undefined\<rparr>"

definition noOptions :: dispatchOptions where
  "noOptions = \<lparr>bypassDebounce = False, force = False, cacheReplace = False\<rparr>"

definition forceOptions :: dispatchOptions where
  "forceOptions = \<lparr>bypassDebounce = False, force = True, cacheReplace = False\<rparr>"

definition rejectAll :: "jsval \<Rightarrow> jsval \<Rightarrow> bool" where
  "rejectAll cur nxt = False"

definition built :: "error + (unitBase \<times> world) \<Rightarrow> unitBase" where
  "built r = (case r of Inr (u, w) \<Rightarrow> u | Inl e \<Rightarrow> newUnitBase GenericUnit config0)"

text \<open>
  A NumUnit holding 1, with the distinct check on and a custom check that rejects
  everything; its events are being observed.
\<close>

definition pickyConfig :: config where
  "pickyConfig = config0\<lparr>distinctDispatchCheck := True, customDispatchCheck := Some rejectAll,
                         cfg_initialValue := Num (Fin 1)\<rparr>"

definition pickyBuilt :: unitBase where
  "pickyBuilt = built (construct world0 NumUnit pickyConfig)"

definition pickyUnit :: unitBase where
  "pickyUnit = events pickyBuilt"

text \<open>A StringUnit holding \<open>''a''\<close>.\<close>

definition stringUnit :: unitBase where
  "stringUnit = built (construct world0 StringUnit (config0\<lparr>cfg_initialValue := Str ''a''\<rparr>))"

definition noClearOptions :: clearCacheOptions where
  "noClearOptions = \<lparr>leaveFirst = False, leaveLast = False\<rparr>"

text \<open>The same unit with other dispatch checks configured.\<close>

definition withChecks ::
  "(jsval \<Rightarrow> jsval \<Rightarrow> bool) option \<Rightarrow> bool \<Rightarrow> unitBase \<Rightarrow> unitBase" where
  "withChecks c d u =
     u\<lparr>config := (config u)\<lparr>customDispatchCheck := c, distinctDispatchCheck := d\<rparr>\<rparr>"


text \<open>The picky NumUnit, muted.\<close>

definition mutedUnit :: unitBase where
  "mutedUnit = mute pickyUnit"

text \<open>A GenericUnit built with no option set.\<close>

definition genericUnit :: unitBase where
  "genericUnit = built (construct world0 GenericUnit config0)"




section \<open>Properties\<close>

subsection \<open>Evaluation of the sample units\<close>

lemma strictEq_Undefined [simp]: "strictEq v Undefined = (v = Undefined)"
  by (cases v) simp_all

lemma updateCache_frame [simp]:
  "flavor (updateCache u v r) = flavor u"
  "config (updateCache u v r) = config u"
  "cacheSize (updateCache u v r) = cacheSize u"
  "isFrozen (updateCache u v r) = isFrozen u"
  "isMuted (updateCache u v r) = isMuted u"
  "emitOnUnmute (updateCache u v r) = emitOnUnmute u"
  "u_initialValue (updateCache u v r) = u_initialValue u"
  "u_value (updateCache u v r) = u_value u"
  "emitCount (updateCache u v r) = emitCount u"
  "emittedValue (updateCache u v r) = emittedValue u"
  "eventsSubject (updateCache u v r) = eventsSubject u"
  by (simp_all add: updateCache_def Let_def)

lemma pushEvent_frame [simp]:
  "flavor (pushEvent u e) = flavor u"
  "config (pushEvent u e) = config u"
  "cacheSize (pushEvent u e) = cacheSize u"
  "isFrozen (pushEvent u e) = isFrozen u"
  "isMuted (pushEvent u e) = isMuted u"
  "emitOnUnmute (pushEvent u e) = emitOnUnmute u"
  "cachedValues (pushEvent u e) = cachedValues u"
  "cacheIndex (pushEvent u e) = cacheIndex u"
  "u_initialValue (pushEvent u e) = u_initialValue u"
  "u_value (pushEvent u e) = u_value u"
  "emitCount (pushEvent u e) = emitCount u"
  "emittedValue (pushEvent u e) = emittedValue u"
  by (simp_all add: pushEvent_def split: option.splits)

lemma pushEvent_only_events: "(pushEvent u e)\<lparr>eventsSubject := eventsSubject u\<rparr> = u"
  by (simp add: pushEvent_def split: option.splits)

lemmas construct_defs =
  world0_def config0_def built_def events_def
  construct_def newUnitBase_def deepCopyMaybe_def dispatchInitialValue_def
  shouldDispatchInitialValue_def initialValueRaw_def applyFallbackValue_def rawValue_def
  updateValueAndCache_def updateCache_def cachedValuesCount_def emit_def unitValue_def
  updateValueInPersistentStorage_def checkSerializabilityMaybe_def

lemmas dispatch_defs =
  dispatchActual_def resolveValue_def wouldDispatch_def wouldDispatchBase_def
  distinctCheck_def failReason_def pushEvent_def rawValue_def applyFallbackValue_def
  checkSerializabilityMaybe_def

lemma pickyUnit_eq:
  "pickyUnit =
     \<lparr>flavor = NumUnit, config = pickyConfig, cacheSize = Fin 2,
      isFrozen = False, isMuted = False, emitOnUnmute = False,
      cachedValues = [Num (Fin 1)], cacheIndex = 0,
      u_initialValue = Num (Fin 1), u_value = Num (Fin 1),
      emitCount = 1, emittedValue = Num (Fin 1), eventsSubject = Some []\<rparr>"
  by (simp add: pickyUnit_def pickyBuilt_def pickyConfig_def construct_defs)


lemma stringUnit_eq:
  "stringUnit =
     \<lparr>flavor = StringUnit, config = config0\<lparr>cfg_initialValue := Str ''a''\<rparr>, cacheSize = Fin 2,
      isFrozen = False, isMuted = False, emitOnUnmute = False,
      cachedValues = [Str ''a''], cacheIndex = 0,
      u_initialValue = Str ''a'', u_value = Str ''a'',
      emitCount = 1, emittedValue = Str ''a'', eventsSubject = None\<rparr>"
  by (simp add: stringUnit_def construct_defs)

lemma pickyUnit_rejects:
  "dispatchActual world0 pickyUnit (Value (Num (Fin 1))) noOptions =
     Inr (False,
          pickyUnit\<lparr>eventsSubject :=
            Some [EventUnitDispatchFail (Num (Fin 1)) DISTINCT_CHECK noOptions]\<rparr>,
          world0)"
  by (simp add: pickyUnit_eq pickyConfig_def rejectAll_def dispatch_defs world0_def noOptions_def)

subsection \<open>Admission\<close>

lemma wouldDispatch_admitted: "wouldDispatch w u v frc = admitted w u v frc"
  by (cases "flavor u")
     (auto simp: wouldDispatch_def wouldDispatchBase_def distinctCheck_def admitted_def
           split: option.splits)

text \<open>
  C1. For every unit class, \<open>wouldDispatch\<close> is the admission rule of the specification,
  and a dispatch that reaches \<open>dispatchActual\<close> either stops in the serializability check
  of the environment, before any admission, or returns exactly what the rule says for
  the resolved value: accepted if and only if the unit is not frozen, the type validator
  accepts the value, and \<open>force\<close> is set or the custom check (if any) and the distinct
  check (if enabled) pass. Neither the frozen test nor the validator is bypassed by
  \<open>force\<close>.
\<close>

theorem dispatch_accepted_iff:
  "wouldDispatch w u v frc = admitted w u v frc \<and>
   map_sum id fst (dispatchActual w u vp opts) =
     (case resolveValue w u vp of (x, w1) \<Rightarrow>
        if checkSerializabilityMaybe w1 x then Inl NonSerializable
        else Inr (admitted w1 u x (force opts)))"
  by (simp add: wouldDispatch_admitted dispatchActual_def split: prod.splits)

theorem dispatch_accepted_iff_witness:
  "wouldDispatch world0 stringUnit (Num (Fin 3)) True = False \<and>
   map_sum id fst (dispatchActual world0 stringUnit (Value (Str ''b'')) forceOptions) = Inr True"
  using dispatch_accepted_iff [of world0 stringUnit "Num (Fin 3)" True "Value (Str ''b'')" forceOptions]
  by (simp add: admitted_def stringUnit_eq resolveValue_def checkSerializabilityMaybe_def
        world0_def forceOptions_def)

subsection \<open>The reason of a rejection\<close>

text \<open>
  C5, as the claim states it, fails: on a unit whose custom check and distinct check
  both reject the value, the notification carries \<open>DISTINCT_CHECK\<close>, not
  \<open>CUSTOM_DISPATCH_CHECK\<close>.
\<close>

theorem rejection_reason_counterexample:
  "customDispatchCheck (config pickyUnit) = Some rejectAll \<and>
   \<not> rejectAll (rawValue world0 pickyUnit) (Num (Fin 1)) \<and>
   \<not> distinctCheck world0 pickyUnit (Num (Fin 1)) \<and>
   dispatchActual world0 pickyUnit (Value (Num (Fin 1))) noOptions =
     Inr (False,
          pickyUnit\<lparr>eventsSubject :=
            Some [EventUnitDispatchFail (Num (Fin 1)) DISTINCT_CHECK noOptions]\<rparr>,
          world0)"
  using pickyUnit_rejects
  by (simp add: pickyUnit_eq pickyConfig_def rejectAll_def distinctCheck_def rawValue_def
        applyFallbackValue_def)

text \<open>
  C5, amended. A rejected dispatch on a unit whose events are observed and that is not
  muted pushes exactly one \<open>EventUnitDispatchFail\<close>, whose reason is \<open>FROZEN_UNIT\<close> if
  the unit is frozen, else \<open>INVALID_VALUE\<close> if the type validator fails, else
  \<open>DISTINCT_CHECK\<close> if the distinct check rejects, else \<open>CUSTOM_DISPATCH_CHECK\<close>; in
  the last case the custom check did reject the value.
\<close>

theorem rejection_reason:
  assumes "dispatchActual w u vp opts = Inr (False, u', w')"
    and "eventsSubject u = Some es" and "\<not> isMuted u"
    and "resolveValue w u vp = (v, w1)"
  shows "\<exists>r. eventsSubject u' = Some (es @ [EventUnitDispatchFail v r opts]) \<and>
     (r = FROZEN_UNIT \<longleftrightarrow> isFrozen u) \<and>
     (r = INVALID_VALUE \<longleftrightarrow> \<not> isFrozen u \<and> \<not> isValidValue (flavor u) v) \<and>
     (r = DISTINCT_CHECK \<longleftrightarrow> \<not> isFrozen u \<and> isValidValue (flavor u) v \<and>
         distinctDispatchCheck (config u) \<and> strictEq v (rawValue w1 u)) \<and>
     (r = CUSTOM_DISPATCH_CHECK \<longleftrightarrow> \<not> isFrozen u \<and> isValidValue (flavor u) v \<and>
         \<not> (distinctDispatchCheck (config u) \<and> strictEq v (rawValue w1 u))) \<and>
     (r = CUSTOM_DISPATCH_CHECK \<longrightarrow> \<not> force opts \<and>
         (\<exists>chk. customDispatchCheck (config u) = Some chk \<and> \<not> chk (rawValue w1 u) v))"
  using assms
  by (auto simp: dispatchActual_def failReason_def pushEvent_def wouldDispatch_admitted
        admitted_def distinctCheck_def
        split: prod.splits if_splits option.splits)

theorem rejection_reason_witness:
  "dispatchActual world0 pickyUnit (Value (Num (Fin 1))) noOptions =
     Inr (False,
          pickyUnit\<lparr>eventsSubject :=
            Some [EventUnitDispatchFail (Num (Fin 1)) DISTINCT_CHECK noOptions]\<rparr>,
          world0) \<and>
   eventsSubject pickyUnit = Some [] \<and> \<not> isMuted pickyUnit \<and>
   resolveValue world0 pickyUnit (Value (Num (Fin 1))) = (Num (Fin 1), world0) \<and>
   (\<exists>r. eventsSubject (pickyUnit\<lparr>eventsSubject :=
            Some [EventUnitDispatchFail (Num (Fin 1)) DISTINCT_CHECK noOptions]\<rparr>) =
          Some ([] @ [EventUnitDispatchFail (Num (Fin 1)) r noOptions]) \<and>
        (r = DISTINCT_CHECK \<longleftrightarrow> \<not> isFrozen pickyUnit \<and> isValidValue (flavor pickyUnit) (Num (Fin 1)) \<and>
           distinctDispatchCheck (config pickyUnit) \<and>
           strictEq (Num (Fin 1)) (rawValue world0 pickyUnit)))"
proof -
  have h2: "eventsSubject pickyUnit = Some []" and h3: "\<not> isMuted pickyUnit"
    by (simp_all add: pickyUnit_eq)
  have h4: "resolveValue world0 pickyUnit (Value (Num (Fin 1))) = (Num (Fin 1), world0)"
    by (simp add: resolveValue_def)
  from rejection_reason [OF pickyUnit_rejects h2 h3 h4]
  show ?thesis using pickyUnit_rejects h2 h3 h4 by blast
qed

subsection \<open>A frozen unit\<close>

lemmas clear_defs = clear_def reset_def clearValue_def resetValue_def clearCache_def
  unfreeze_def freeze_def isEmpty_def splice_def

lemmas update_defs = updateValueAndCache_def updateCache_def cachedValuesCount_def emit_def
  unitValue_def updateValueInPersistentStorage_def rawValue_def applyFallbackValue_def Let_def

text \<open>
  C3, as the claim states it, fails: \<open>clear\<close> unfreezes first, so on a frozen unit that
  holds a value it clears the value and emits.
\<close>

theorem frozen_counterexample:
  "isFrozen (freeze stringUnit) \<and> emitCount (freeze stringUnit) = 1 \<and>
   emitCount (fst (clear world0 (freeze stringUnit) noClearOptions)) = 2 \<and>
   u_value (fst (clear world0 (freeze stringUnit) noClearOptions)) = Str []"
  by (simp add: stringUnit_eq clear_defs update_defs noClearOptions_def pushEvent_def
        world0_def config0_def)

text \<open>
  C3, amended. On a frozen unit a dispatch returns \<open>false\<close> (or stops in the
  serializability check) and changes nothing but the events pushed; \<open>jump\<close>, \<open>goBack\<close>,
  \<open>goForward\<close>, \<open>jumpToStart\<close>, \<open>jumpToEnd\<close>, \<open>clearValue\<close>, \<open>resetValue\<close> and
  \<open>clearCache\<close> return \<open>false\<close> and change nothing; so the emit count stays. \<open>clear\<close>
  and \<open>reset\<close> are not part of this: they unfreeze the unit first.
\<close>

theorem frozen_noop:
  assumes "isFrozen u"
  shows "(\<forall>b u' w'. dispatchActual w u vp opts = Inr (b, u', w') \<longrightarrow>
            \<not> b \<and> emitCount u' = emitCount u \<and> u'\<lparr>eventsSubject := eventsSubject u\<rparr> = u)
         \<and> jump w u n = (False, u, w)
         \<and> goBack w u = (False, u, w) \<and> goForward w u = (False, u, w)
         \<and> jumpToStart w u = (False, u, w) \<and> jumpToEnd w u = (False, u, w)
         \<and> clearValue w u = (False, u, w) \<and> resetValue w u = (False, u, w)
         \<and> clearCache u copts = (False, u)"
  using assms
  by (auto simp: dispatchActual_def wouldDispatch_def wouldDispatchBase_def
        jump_def goBack_def goForward_def jumpToStart_def jumpToEnd_def clearValue_def
        resetValue_def clearCache_def pushEvent_only_events split: prod.splits if_splits)

theorem frozen_noop_witness:
  "isFrozen (freeze stringUnit) \<and>
   dispatchActual world0 (freeze stringUnit) (Value (Str ''b'')) forceOptions =
     Inr (False, freeze stringUnit, world0) \<and>
   goBack world0 (freeze stringUnit) = (False, freeze stringUnit, world0) \<and>
   clearValue world0 (freeze stringUnit) = (False, freeze stringUnit, world0)"
proof -
  have h: "isFrozen (freeze stringUnit)"
    by (simp add: stringUnit_eq freeze_def pushEvent_def)
  have d: "dispatchActual world0 (freeze stringUnit) (Value (Str ''b'')) forceOptions =
     Inr (False, freeze stringUnit, world0)"
    by (simp add: stringUnit_eq freeze_def dispatch_defs world0_def)
  from frozen_noop [OF h, of world0 "Value (Str ''b'')" forceOptions] d
  show ?thesis using h by simp
qed

subsection \<open>Clearing and resetting the value\<close>

lemma withChecks_frame [simp]:
  "flavor (withChecks c d u) = flavor u"
  "cacheSize (withChecks c d u) = cacheSize u"
  "isFrozen (withChecks c d u) = isFrozen u"
  "isMuted (withChecks c d u) = isMuted u"
  "emitOnUnmute (withChecks c d u) = emitOnUnmute u"
  "cachedValues (withChecks c d u) = cachedValues u"
  "cacheIndex (withChecks c d u) = cacheIndex u"
  "u_initialValue (withChecks c d u) = u_initialValue u"
  "u_value (withChecks c d u) = u_value u"
  "emitCount (withChecks c d u) = emitCount u"
  "emittedValue (withChecks c d u) = emittedValue u"
  "eventsSubject (withChecks c d u) = eventsSubject u"
  "immutable (config (withChecks c d u)) = immutable (config u)"
  "persistent (config (withChecks c d u)) = persistent (config u)"
  "cfg_id (config (withChecks c d u)) = cfg_id (config u)"
  by (simp_all add: withChecks_def)


lemma rawValue_withChecks [simp]: "rawValue w (withChecks c d u) = rawValue w u"
  by (simp add: rawValue_def applyFallbackValue_def)

lemma initialValueRaw_withChecks [simp]:
  "initialValueRaw w (withChecks c d u) = initialValueRaw w u"
  by (simp add: initialValueRaw_def applyFallbackValue_def)

lemma isEmpty_withChecks [simp]: "isEmpty w (withChecks c d u) = isEmpty w u"
  by (simp add: isEmpty_def)

lemma deepCopyMaybe_withChecks [simp]:
  "deepCopyMaybe w (withChecks c d u) v = deepCopyMaybe w u v"
  by (simp add: deepCopyMaybe_def)

lemma unitValue_withChecks [simp]: "unitValue w (withChecks c d u) = unitValue w u"
  by (simp add: unitValue_def)



lemma updateValueInPersistentStorage_withChecks [simp]:
  "updateValueInPersistentStorage w (withChecks c d u) = updateValueInPersistentStorage w u"
  by (simp add: updateValueInPersistentStorage_def)





subsection \<open>The initial value\<close>









subsection \<open>The path of a selection\<close>

lemma genericUnit_eq:
  "genericUnit =
     \<lparr>flavor = GenericUnit, config = config0, cacheSize = Fin 2,
      isFrozen = False, isMuted = False, emitOnUnmute = False,
      cachedValues = [Undefined], cacheIndex = 0,
      u_initialValue = Undefined, u_value = Undefined,
      emitCount = 1, emittedValue = Undefined, eventsSubject = None\<rparr>"
  by (simp add: genericUnit_def construct_defs)

text \<open>
  C9, as the claim states it, fails: a path with a negative and a fractional number is
  accepted.
\<close>

theorem selection_path_counterexample:
  "newSelection genericUnit [Num (Fin (- 1)), Num (Fin (1 / 2))] =
     Inr (genericUnit, [Num (Fin (- 1)), Num (Fin (1 / 2))])"
  by (simp add: newSelection_def checkPath_def genericUnit_eq)

text \<open>
  C9, amended. The constructor of a selection throws if and only if the unit is not a
  GenericUnit, ListUnit or DictUnit, or the path is empty, or some key is neither a
  string nor a number; every number is accepted as a key.
\<close>

theorem selection_path_checked:
  "(\<exists>e. newSelection u path = Inl e) \<longleftrightarrow>
     flavor u \<notin> {GenericUnit, ListUnit, DictUnit} \<or> path = [] \<or>
     (\<exists>key \<in> set path. \<not> ((\<exists>s. key = Str s) \<or> (\<exists>n. key = Num n)))"
proof -
  have k: "isValidKey key \<longleftrightarrow> (\<exists>s. key = Str s) \<or> (\<exists>n. key = Num n)" for key
    by (cases key) simp_all
  have "(find (\<lambda>key. \<not> isValidKey key) path = None) \<longleftrightarrow> (\<forall>key \<in> set path. isValidKey key)"
    by (auto simp: find_None_iff)
  then show ?thesis
    by (auto simp: newSelection_def checkPath_def k split: option.splits)
qed

theorem selection_path_checked_witness:
  "(\<exists>e. newSelection genericUnit [Str ''a'', Bool True] = Inl e) \<and>
   \<not> (\<exists>e. newSelection genericUnit [Str ''a'', Num (Fin (- 1))] = Inl e)"
  using selection_path_checked [of genericUnit "[Str ''a'', Bool True]"]
    selection_path_checked [of genericUnit "[Str ''a'', Num (Fin (- 1))]"]
  by (simp add: genericUnit_eq)


subsection \<open>The cache\<close>







lemma deepCopy_valid: "isValidValue fl (fst (deepCopy h v)) = isValidValue fl v"
  by (cases fl; cases v) (auto split: prod.splits)









lemma pushEvent_inv [simp]:
  "rawValue w (pushEvent u e) = rawValue w u"
  "cacheSane (pushEvent u e) = cacheSane u"
  "historyInvariant w (pushEvent u e) = historyInvariant w u"
  by (simp_all add: rawValue_def applyFallbackValue_def cacheSane_def historyInvariant_def
        withinCapacity_def capacityAtLeast_def cachedValuesCount_def)





































end
